theory Spec2Isabelle
  imports Complex_Main "HOL-Library.Word"
begin

section \<open>Menu-action handlers of src/domain\_functions.cpp\<close>

text \<open>
  The file holds five free functions. Four of them are connected to the menu of the
  application and receive the activated menu item as a \<^verbatim>\<open>std::vector<tgui::String>\<close>;
  the fifth, \<^verbatim>\<open>moveCircle\<close>, receives the pointer position. Each function mutates one
  object it gets by reference (the GUI container, the plane) or talks to the file
  system; the model passes that object in and returns it updated.

  Coordinates are \<^verbatim>\<open>float\<close>s in the source (\<^verbatim>\<open>sf::Vector2f\<close>). The model leaves the
  number type as a parameter \<open>'f\<close>: the handlers only write the literal \<^verbatim>\<open>50.f\<close> and
  subtract, so nothing proved below relies on a law of exact arithmetic.
\<close>

subsection \<open>Vectors, colours and the circle shape (SFML)\<close>

datatype 'f Vector2 = Vector2 (vx: 'f) (vy: 'f)

text \<open>\<^verbatim>\<open>operator-(Vector2, Vector2)\<close>: componentwise.\<close>

definition vec_minus :: "('f::minus) Vector2 \<Rightarrow> 'f Vector2 \<Rightarrow> 'f Vector2" where
  "vec_minus l r = Vector2 (vx l - vx r) (vy l - vy r)"

text \<open>\<^verbatim>\<open>sf::Color\<close>: four 8-bit channels; \<^verbatim>\<open>sf::Color::Red\<close> and \<^verbatim>\<open>White\<close> are its constants.\<close>

datatype Color = Color (red: "8 word") (green: "8 word") (blue: "8 word") (alpha: "8 word")

definition Red :: Color where
  "Red = Color 255 0 0 255"

definition White :: Color where
  "White = Color 255 255 255 255"

text \<open>
  \<^verbatim>\<open>sf::CircleShape\<close>, with the attributes \<^verbatim>\<open>startProgram\<close> sets and the point count its
  constructor takes. The constructor \<^verbatim>\<open>CircleShape(radius, pointCount = 30)\<close> leaves the
  shape at position (0, 0), filled white.
\<close>

record 'f CircleShape =
  radius :: 'f
  pointCount :: nat
  shapePosition :: "'f Vector2"
  fillColor :: Color

definition CircleShape_ctor :: "('f::zero) \<Rightarrow> 'f CircleShape" where
  "CircleShape_ctor r =
     \<lparr>radius = r, pointCount = 30, shapePosition = Vector2 0 0, fillColor = White\<rparr>"

definition setPosition :: "'f Vector2 \<Rightarrow> 'f CircleShape \<Rightarrow> 'f CircleShape" where
  "setPosition v c = c\<lparr>shapePosition := v\<rparr>"

definition setFillColor :: "Color \<Rightarrow> 'f CircleShape \<Rightarrow> 'f CircleShape" where
  "setFillColor col c = c\<lparr>fillColor := col\<rparr>"

subsection \<open>The plane\<close>

text \<open>
  Modelled from the spec: the class \<^verbatim>\<open>objects::Plane\<close> is declared outside the files at
  hand. The spec's data model gives the entity four independent fields: a drawable
  shape that is replaced wholesale, a visibility flag, the current position and the
  target position. The three setters the handlers call each store their argument in
  one field.
\<close>

record 'f Plane =
  primitive :: "'f CircleShape"
  toDraw :: bool
  position :: "'f Vector2"
  targetPosition :: "'f Vector2"

definition SetPrimitive :: "'f CircleShape \<Rightarrow> 'f Plane \<Rightarrow> 'f Plane" where
  "SetPrimitive c plane = plane\<lparr>primitive := c\<rparr>"

definition SetToDraw :: "bool \<Rightarrow> 'f Plane \<Rightarrow> 'f Plane" where
  "SetToDraw b plane = plane\<lparr>toDraw := b\<rparr>"

definition SetTargetPosition :: "'f Vector2 \<Rightarrow> 'f Plane \<Rightarrow> 'f Plane" where
  "SetTargetPosition v plane = plane\<lparr>targetPosition := v\<rparr>"

text \<open>
  Modelled from the spec: the constant \<^verbatim>\<open>objects::CIRCLE_SIZE\<close> is declared outside the
  files at hand. The spec calls it the centre offset, a fixed constant equal to half the
  entity's fixed visual size; the circle has radius 50, so its size is 100 and the offset
  is (50, 50).
\<close>

definition CIRCLE_SIZE :: "('f::numeral) Vector2" where
  "CIRCLE_SIZE = Vector2 50 50"

subsection \<open>Info\<close>

text \<open>
  The GUI container (\<^verbatim>\<open>tgui::Gui\<close>) is the list of the widgets added to it, in the order
  they were added; a widget is known by its place in that list. Of the widgets only
  the message box matters here, with the attributes \<^verbatim>\<open>showInfo\<close> sets. A position is
  the layout expression handed to \<^verbatim>\<open>setPosition\<close>.
\<close>

datatype Alignment = Left | Center | Right

text \<open>
  The handlers connected to a signal. The file connects one: the lambda of \<^verbatim>\<open>showInfo\<close>,
  which asks the parent of the message box it captured to remove that box.
\<close>

datatype Callback = RemoveFromParent

record MessageBox =
  boxPosition :: string
  boxText :: string
  buttons :: "string list"
  buttonAlignment :: Alignment
  onButtonPress :: "Callback list"

datatype Widget = MessageBoxWidget MessageBox | OtherWidget string

type_synonym Gui = "Widget list"

definition MessageBox_create :: MessageBox where
  "MessageBox_create =
     \<lparr>boxPosition = ''0'', boxText = [], buttons = [], buttonAlignment = Center,
      onButtonPress = []\<rparr>"

definition gui_add :: "Gui \<Rightarrow> Widget \<Rightarrow> Gui" where
  "gui_add gui widget = gui @ [widget]"

definition gui_remove :: "nat \<Rightarrow> Gui \<Rightarrow> Gui" where
  "gui_remove i gui = take i gui @ drop (Suc i) gui"

definition showInfo :: "Gui \<Rightarrow> string list \<Rightarrow> Gui" where
  "showInfo gui menuItem =
     (if length menuItem = 2 \<and> menuItem ! 0 = ''Info'' \<and> menuItem ! 1 = ''About'' then
        let messageBox = MessageBox_create;
            messageBox = messageBox\<lparr>boxPosition := ''(&.size - size) / 2''\<rparr>;
            messageBox = messageBox\<lparr>boxText := ''This program was developed by comrademashkov''\<rparr>;
            messageBox = messageBox\<lparr>buttons := buttons messageBox @ [''OK'']\<rparr>;
            messageBox = messageBox\<lparr>buttonAlignment := Center\<rparr>;
            messageBox = messageBox\<lparr>onButtonPress := onButtonPress messageBox @ [RemoveFromParent]\<rparr>
        in gui_add gui (MessageBoxWidget messageBox)
      else gui)"

text \<open>
  What the toolkit does when the user presses the button \<open>button\<close> of the widget at
  place \<open>i\<close>: it runs the handlers connected to that message box, in order. The
  handler of \<^verbatim>\<open>showInfo\<close> removes the box from the container it is in.
\<close>

primrec run_callback :: "Callback \<Rightarrow> nat \<Rightarrow> string \<Rightarrow> Gui \<Rightarrow> Gui" where
  "run_callback RemoveFromParent msgBox button gui = gui_remove msgBox gui"

definition pressButton :: "nat \<Rightarrow> string \<Rightarrow> Gui \<Rightarrow> Gui" where
  "pressButton i button gui =
     (if i < length gui then
        (case gui ! i of
           MessageBoxWidget mb \<Rightarrow>
             if button \<in> set (buttons mb)
             then fold (\<lambda>cb. run_callback cb i button) (onButtonPress mb) gui
             else gui
         | OtherWidget name \<Rightarrow> gui)
      else gui)"

text \<open>
  A dialog is modal when, as long as it is shown, the rest of the interface takes no
  input. Here: with the widget at place \<open>i\<close> in the container, pressing a button of
  any other widget leaves the container as it is.
\<close>

definition widgetButtons :: "Widget \<Rightarrow> string list" where
  "widgetButtons widget =
     (case widget of MessageBoxWidget mb \<Rightarrow> buttons mb | OtherWidget name \<Rightarrow> [])"

definition modal :: "nat \<Rightarrow> Gui \<Rightarrow> bool" where
  "modal i gui =
     list_all
       (\<lambda>j. j = i \<or> list_all (\<lambda>b. pressButton j b gui = gui) (widgetButtons (gui ! j)))
       [0..<length gui]"

subsection \<open>Program\<close>

definition startProgram :: "('f::{zero,numeral}) Plane \<Rightarrow> string list \<Rightarrow> 'f Plane" where
  "startProgram plane menuItem =
     (if length menuItem = 2 \<and> menuItem ! 0 = ''Program'' \<and> menuItem ! 1 = ''Start'' then
        let c = CircleShape_ctor 50;
            c = setPosition (Vector2 50 50) c;
            c = setFillColor Red c;
            plane = SetPrimitive c plane;
            plane = SetToDraw True plane
        in SetTargetPosition (Vector2 50 50) plane
      else plane)"

definition finishProgram :: "'f Plane \<Rightarrow> string list \<Rightarrow> 'f Plane" where
  "finishProgram plane menuItem =
     (if length menuItem = 2 \<and> menuItem ! 0 = ''Program'' \<and> menuItem ! 1 = ''Finish'' then
        SetToDraw False plane
      else plane)"

subsection \<open>File\<close>

text \<open>
  The file system is a map from paths to contents. Both steps of writing a file can
  fail. Opening for writing fails on the paths the file system refuses (a read-only
  place, a directory); \<^verbatim>\<open>std::ofstream\<close> then sets its fail bit and drops what is
  written to it. Writing fails when the bytes do not fit: \<open>sizeLimit\<close> gives, for a
  path, how many bytes the file there may hold (free space, a quota, a file-size limit,
  0 for a device that takes nothing), or \<open>None\<close> when nothing limits it. A write
  that does not fit stores the bytes that do and fails. The calls that leave the
  program (the dialog, open, write, close) are kept in a trace, in order.
\<close>

datatype IoEvent =
    SaveFileDialog string string nat "string list option" string
  | OpenForWrite "string option"
  | WriteBytes string string
  | CloseFile string

record World =
  files :: "string \<rightharpoonup> string"
  unwritable :: "string set"
  sizeLimit :: "string \<Rightarrow> nat option"
  trace :: "IoEvent list"

text \<open>The file at path \<open>p\<close> may hold \<open>n\<close> bytes.\<close>

definition hasRoom :: "World \<Rightarrow> string \<Rightarrow> nat \<Rightarrow> bool" where
  "hasRoom w p n = (case sizeLimit w p of None \<Rightarrow> True | Some m \<Rightarrow> n \<le> m)"

text \<open>
  \<^verbatim>\<open>tinyfd_saveFileDialog\<close> shows the native dialog. What it returns is the user's
  choice, the first argument here: the chosen path, or \<open>None\<close> for the null pointer
  it returns when the dialog is cancelled.
\<close>

definition tinyfd_saveFileDialog ::
  "string option \<Rightarrow> string \<Rightarrow> string \<Rightarrow> nat \<Rightarrow> string list option \<Rightarrow> string \<Rightarrow> World
     \<Rightarrow> string option \<times> World" where
  "tinyfd_saveFileDialog choice aTitle aDefaultPathAndFile aNumOfFilterPatterns aFilterPatterns
       aSingleFilterDescription w =
     (choice,
      w\<lparr>trace := trace w @ [SaveFileDialog aTitle aDefaultPathAndFile aNumOfFilterPatterns
                               aFilterPatterns aSingleFilterDescription]\<rparr>)"

text \<open>
  \<^verbatim>\<open>std::ofstream\<close>: the file it has open, if any, its fail bit, and the bytes it holds
  in its buffer until they are flushed. The constructor asks the file system to open
  the path for writing, which empties the file or creates it.
  The source hands it the dialog's result as it comes, so the path can be the null
  pointer; the C++ standard gives that call no meaning, and the model takes it as an
  open that fails.
\<close>

record ofstream =
  openFile :: "string option"
  failbit :: bool
  buffer :: string

definition ofstream_ctor :: "string option \<Rightarrow> World \<Rightarrow> ofstream \<times> World" where
  "ofstream_ctor file_path w =
     (let w = w\<lparr>trace := trace w @ [OpenForWrite file_path]\<rparr> in
      case file_path of
        None \<Rightarrow> (\<lparr>openFile = None, failbit = True, buffer = []\<rparr>, w)
      | Some p \<Rightarrow>
          if p = [] \<or> p \<in> unwritable w
          then (\<lparr>openFile = None, failbit = True, buffer = []\<rparr>, w)
          else (\<lparr>openFile = Some p, failbit = False, buffer = []\<rparr>,
                w\<lparr>files := (files w)(p \<mapsto> [])\<rparr>))"

text \<open>
  \<^verbatim>\<open>operator<<\<close> puts the bytes in the buffer of a stream that is open and has not
  failed; on a stream that failed it does nothing.
\<close>

definition ofstream_put :: "string \<Rightarrow> ofstream \<Rightarrow> World \<Rightarrow> ofstream \<times> World" where
  "ofstream_put s ofs w =
     (case openFile ofs of
        None \<Rightarrow> (ofs\<lparr>failbit := True\<rparr>, w)
      | Some p \<Rightarrow>
          if failbit ofs then (ofs, w)
          else (ofs\<lparr>buffer := buffer ofs @ s\<rparr>, w))"

text \<open>
  Flushing hands the buffered bytes to the file system, which appends them to the file.
  When they do not all fit, the file gets the bytes that fit, the rest is lost and the
  stream sets its fail bit.
\<close>

definition ofstream_flush :: "ofstream \<Rightarrow> World \<Rightarrow> ofstream \<times> World" where
  "ofstream_flush ofs w =
     (case openFile ofs of
        None \<Rightarrow> (ofs, w)
      | Some p \<Rightarrow>
          if buffer ofs = [] then (ofs, w)
          else
            let old = (case files w p of None \<Rightarrow> [] | Some content \<Rightarrow> content);
                written = (case sizeLimit w p of
                             None \<Rightarrow> buffer ofs
                           | Some m \<Rightarrow> take (m - length old) (buffer ofs));
                w = w\<lparr>trace := trace w @ [WriteBytes p (buffer ofs)]\<rparr>
            in (ofs\<lparr>buffer := [], failbit := (failbit ofs \<or> written \<noteq> buffer ofs)\<rparr>,
                w\<lparr>files := (files w)(p \<mapsto> old @ written)\<rparr>))"

text \<open>\<^verbatim>\<open>close\<close> flushes the buffer and closes the file.\<close>

definition ofstream_close :: "ofstream \<Rightarrow> World \<Rightarrow> ofstream \<times> World" where
  "ofstream_close ofs w =
     (let (ofs, w) = ofstream_flush ofs w in
      case openFile ofs of
        None \<Rightarrow> (ofs\<lparr>failbit := True\<rparr>, w)
      | Some p \<Rightarrow> (ofs\<lparr>openFile := None\<rparr>, w\<lparr>trace := trace w @ [CloseFile p]\<rparr>))"

text \<open>The two literals of \<^verbatim>\<open>saveFile\<close> that are not ASCII, as their UTF-8 bytes.\<close>

definition dialogTitle :: string where
  "dialogTitle =
     [CHR 0xD0, CHR 0xA1, CHR 0xD0, CHR 0xBE, CHR 0xD1, CHR 0x85, CHR 0xD1, CHR 0x80, CHR 0xD0,
      CHR 0xB0, CHR 0xD0, CHR 0xBD, CHR 0xD0, CHR 0xB8, CHR 0xD1, CHR 0x82, CHR 0xD1, CHR 0x8C,
      CHR 0x20, CHR 0xD1, CHR 0x84, CHR 0xD0, CHR 0xB0, CHR 0xD0, CHR 0xB9, CHR 0xD0, CHR 0xBB]"

definition filterDescription :: string where
  "filterDescription =
     [CHR 0xD0, CHR 0xA2, CHR 0xD0, CHR 0xB5, CHR 0xD0, CHR 0xBA, CHR 0xD1, CHR 0x81, CHR 0xD1,
      CHR 0x82, CHR 0xD0, CHR 0xBE, CHR 0xD0, CHR 0xB2, CHR 0xD1, CHR 0x8B, CHR 0xD0, CHR 0xB5,
      CHR 0x20, CHR 0xD1, CHR 0x84, CHR 0xD0, CHR 0xB0, CHR 0xD0, CHR 0xB9, CHR 0xD0, CHR 0xBB,
      CHR 0xD1, CHR 0x8B] @ '' (*.txt), *.txt''"

definition saveFile :: "string option \<Rightarrow> string \<Rightarrow> string list \<Rightarrow> World \<Rightarrow> World" where
  "saveFile choice filename menuItem w =
     (if length menuItem = 2 \<and> menuItem ! 0 = ''File'' \<and> menuItem ! 1 = ''Save'' then
        let (file_path, w) = tinyfd_saveFileDialog choice dialogTitle filename 0 None
                               filterDescription w;
            (ofs, w) = ofstream_ctor file_path w;
            (ofs, w) = ofstream_put ''TEST\<newline>'' ofs w;
            (ofs, w) = ofstream_close ofs w
        in w
      else w)"

subsection \<open>Graphics\<close>

definition moveCircle :: "('f::{minus,numeral}) Plane \<Rightarrow> 'f Vector2 \<Rightarrow> 'f Plane" where
  "moveCircle plane mousePosition =
     SetTargetPosition (vec_minus mousePosition CIRCLE_SIZE) plane"

subsection \<open>Example states\<close>

text \<open>Concrete states on which the theorems below are run.\<close>

definition idlePlane :: "real Plane" where
  "idlePlane =
     \<lparr>primitive = CircleShape_ctor 0, toDraw = False, position = Vector2 3 4,
      targetPosition = Vector2 7 8\<rparr>"

definition menuOnly :: Gui where
  "menuOnly = [OtherWidget ''MenuBar'']"

definition oldDisk :: World where
  "oldDisk =
     \<lparr>files = [''/tmp/out.txt'' \<mapsto> ''old text''], unwritable = {},
      sizeLimit = (\<lambda>p. None), trace = []\<rparr>"

definition lockedDisk :: World where
  "lockedDisk =
     \<lparr>files = Map.empty, unwritable = {''/locked/out.txt''}, sizeLimit = (\<lambda>p. None),
      trace = []\<rparr>"

definition fullDisk :: World where
  "fullDisk =
     \<lparr>files = [''/tmp/out.txt'' \<mapsto> ''old text''], unwritable = {},
      sizeLimit = (\<lambda>p. Some 0), trace = []\<rparr>"

section \<open>Properties\<close>

lemmas plane_setters = SetPrimitive_def SetToDraw_def SetTargetPosition_def

lemmas shape_setters = CircleShape_ctor_def setPosition_def setFillColor_def

lemmas stream_ops =
  tinyfd_saveFileDialog_def ofstream_ctor_def ofstream_put_def ofstream_flush_def
  ofstream_close_def

subsection \<open>The guard of the handlers\<close>

text \<open>
  Every handler starts with the same test: the vector has two elements, the first is
  the category and the second the action. The comparison of \<^verbatim>\<open>tgui::String\<close> with a
  literal is equality of the characters, so the test holds for exactly one vector.
\<close>

lemma menu_guard:
  "(length menuItem = 2 \<and> menuItem ! 0 = a \<and> menuItem ! 1 = b) = (menuItem = [a, b])"
proof (cases menuItem)
  case Nil
  then show ?thesis by simp
next
  case (Cons c rest)
  then show ?thesis by (cases rest) auto
qed

lemma showInfo_other: "menuItem \<noteq> [''Info'', ''About''] \<Longrightarrow> showInfo gui menuItem = gui"
  unfolding showInfo_def menu_guard by simp

lemma startProgram_other:
  "menuItem \<noteq> [''Program'', ''Start''] \<Longrightarrow> startProgram plane menuItem = plane"
  unfolding startProgram_def menu_guard by simp

lemma finishProgram_other:
  "menuItem \<noteq> [''Program'', ''Finish''] \<Longrightarrow> finishProgram plane menuItem = plane"
  unfolding finishProgram_def menu_guard by simp

lemma saveFile_other:
  "menuItem \<noteq> [''File'', ''Save''] \<Longrightarrow> saveFile choice filename menuItem w = w"
  unfolding saveFile_def menu_guard by simp

lemmas handlers_other = showInfo_other startProgram_other finishProgram_other saveFile_other

subsection \<open>Pointer moves\<close>

text \<open>
  C1. For every pointer position \<open>P\<close>, \<^verbatim>\<open>moveCircle\<close> sets the target position of the plane
  to \<open>P\<close> minus the centre offset, componentwise. The offset is the constant (50, 50):
  each of its components is the radius of the circle that (Program, Start) creates,
  half of that circle's size.
\<close>

theorem moveCircle_target:
  "targetPosition (moveCircle plane P) = vec_minus P CIRCLE_SIZE
   \<and> vec_minus P CIRCLE_SIZE = Vector2 (vx P - 50) (vy P - 50)
   \<and> vx CIRCLE_SIZE = radius (primitive (startProgram plane [''Program'', ''Start'']))
   \<and> vy CIRCLE_SIZE = radius (primitive (startProgram plane [''Program'', ''Start'']))"
  by (simp add: moveCircle_def plane_setters vec_minus_def CIRCLE_SIZE_def startProgram_def
      shape_setters)

text \<open>
  C10. \<^verbatim>\<open>moveCircle\<close> has no condition: it stores the new target position whatever the
  draw flag is, in particular when the flag is false, as it is after (Program, Finish),
  and it changes no other field of the plane.
\<close>

theorem moveCircle_unconditional:
  "moveCircle plane mousePosition =
     plane\<lparr>targetPosition := vec_minus mousePosition CIRCLE_SIZE\<rparr>
   \<and> targetPosition (moveCircle (plane\<lparr>toDraw := False\<rparr>) mousePosition) =
       vec_minus mousePosition CIRCLE_SIZE
   \<and> targetPosition (moveCircle (finishProgram plane [''Program'', ''Finish'']) mousePosition) =
       vec_minus mousePosition CIRCLE_SIZE
   \<and> toDraw (moveCircle plane mousePosition) = toDraw plane
   \<and> primitive (moveCircle plane mousePosition) = primitive plane
   \<and> position (moveCircle plane mousePosition) = position plane"
  by (simp add: moveCircle_def plane_setters)

subsection \<open>Program\<close>

text \<open>
  C3. Whatever the plane was before, the menu item (Program, Start) leaves it with a
  red circle of radius 50 placed at (50, 50) as its shape, the draw flag set, and the
  target position (50, 50), the same point the circle is placed at.
\<close>

theorem startProgram_start:
  "startProgram plane [''Program'', ''Start''] =
     plane\<lparr>primitive := \<lparr>radius = 50, pointCount = 30, shapePosition = Vector2 50 50,
                          fillColor = Red\<rparr>,
           toDraw := True,
           targetPosition := Vector2 50 50\<rparr>"
  by (simp add: startProgram_def plane_setters shape_setters)

text \<open>
  C4. Whatever the plane was before, the menu item (Program, Finish) clears the draw
  flag and leaves the target position and the shape as they were.
\<close>

theorem finishProgram_finish:
  "finishProgram plane [''Program'', ''Finish''] = plane\<lparr>toDraw := False\<rparr>
   \<and> toDraw (finishProgram plane [''Program'', ''Finish'']) = False
   \<and> targetPosition (finishProgram plane [''Program'', ''Finish'']) = targetPosition plane
   \<and> primitive (finishProgram plane [''Program'', ''Finish'']) = primitive plane"
  by (simp add: finishProgram_def plane_setters)

text \<open>
  C8. No handler changes the current position of the plane, whatever the menu item and
  the plane are. \<^verbatim>\<open>startProgram\<close> and \<^verbatim>\<open>finishProgram\<close> are the two menu handlers that get
  the plane; \<^verbatim>\<open>showInfo\<close> gets the GUI container only and \<^verbatim>\<open>saveFile\<close> a file name only.
  \<^verbatim>\<open>moveCircle\<close> leaves the position alone too.
\<close>

theorem handlers_keep_position:
  "position (startProgram plane menuItem) = position plane
   \<and> position (finishProgram plane menuItem) = position plane
   \<and> position (moveCircle plane mousePosition) = position plane"
  by (simp add: startProgram_def finishProgram_def moveCircle_def plane_setters Let_def)

subsection \<open>Info\<close>

text \<open>
  C7, as amended. The menu item (Info, About) adds one message box to the GUI
  container, after the widgets already there: its text is fixed and it has the single
  button OK. Pressing that button removes the box, which leaves the container as it was
  before. Nothing is said of the box being modal.
\<close>

theorem showInfo_about:
  "showInfo gui [''Info'', ''About''] =
     gui @ [MessageBoxWidget
              \<lparr>boxPosition = ''(&.size - size) / 2'',
               boxText = ''This program was developed by comrademashkov'',
               buttons = [''OK''], buttonAlignment = Center,
               onButtonPress = [RemoveFromParent]\<rparr>]
   \<and> pressButton (length gui) ''OK'' (showInfo gui [''Info'', ''About'']) = gui"
  by (simp add: showInfo_def MessageBox_create_def gui_add_def pressButton_def gui_remove_def)

text \<open>
  C7, as stated, fails: the box is not modal. \<^verbatim>\<open>showInfo\<close> makes no call that would
  keep input from the rest of the interface, so with an older box still in the
  container, the box it adds does not stop the older one's button from working:
  pressing it removes the older box while the new one is shown.
\<close>

theorem showInfo_not_modal_counterexample:
  "\<not> modal 1 (showInfo (showInfo [] [''Info'', ''About'']) [''Info'', ''About''])
   \<and> pressButton 0 ''OK'' (showInfo (showInfo [] [''Info'', ''About'']) [''Info'', ''About''])
       = showInfo [] [''Info'', ''About'']"
  by (simp add: modal_def widgetButtons_def showInfo_def MessageBox_create_def gui_add_def
      pressButton_def gui_remove_def upt_rec)

subsection \<open>Menu items no handler knows\<close>

text \<open>
  C5. When the menu item is none of (Info, About), (Program, Start), (Program, Finish)
  and (File, Save), compared character by character, each of the four handlers returns
  what it was given: the GUI container, the plane, and the file system with its trace
  of outside calls. And for any menu item at all, at least three of the four handlers
  return what they were given, so at most one effect happens.
\<close>

theorem unrecognized_noop:
  "(menuItem \<noteq> [''Info'', ''About''] \<and> menuItem \<noteq> [''Program'', ''Start'']
      \<and> menuItem \<noteq> [''Program'', ''Finish''] \<and> menuItem \<noteq> [''File'', ''Save'']
    \<longrightarrow> showInfo gui menuItem = gui
        \<and> startProgram plane menuItem = plane
        \<and> finishProgram plane menuItem = plane
        \<and> saveFile choice filename menuItem w = w)
   \<and> (startProgram plane menuItem = plane \<and> finishProgram plane menuItem = plane
         \<and> saveFile choice filename menuItem w = w
       \<or> showInfo gui menuItem = gui \<and> finishProgram plane menuItem = plane
         \<and> saveFile choice filename menuItem w = w
       \<or> showInfo gui menuItem = gui \<and> startProgram plane menuItem = plane
         \<and> saveFile choice filename menuItem w = w
       \<or> showInfo gui menuItem = gui \<and> startProgram plane menuItem = plane
         \<and> finishProgram plane menuItem = plane)"
proof (intro conjI impI)
  assume "menuItem \<noteq> [''Info'', ''About''] \<and> menuItem \<noteq> [''Program'', ''Start'']
      \<and> menuItem \<noteq> [''Program'', ''Finish''] \<and> menuItem \<noteq> [''File'', ''Save'']"
  then show "showInfo gui menuItem = gui" "startProgram plane menuItem = plane"
    "finishProgram plane menuItem = plane" "saveFile choice filename menuItem w = w"
    by (simp_all add: handlers_other)
next
  consider (info) "menuItem = [''Info'', ''About'']"
    | (start) "menuItem = [''Program'', ''Start'']"
    | (finish) "menuItem = [''Program'', ''Finish'']"
    | (other) "menuItem \<noteq> [''Info'', ''About'']" "menuItem \<noteq> [''Program'', ''Start'']"
        "menuItem \<noteq> [''Program'', ''Finish'']"
    by blast
  then show "startProgram plane menuItem = plane \<and> finishProgram plane menuItem = plane
         \<and> saveFile choice filename menuItem w = w
       \<or> showInfo gui menuItem = gui \<and> finishProgram plane menuItem = plane
         \<and> saveFile choice filename menuItem w = w
       \<or> showInfo gui menuItem = gui \<and> startProgram plane menuItem = plane
         \<and> saveFile choice filename menuItem w = w
       \<or> showInfo gui menuItem = gui \<and> startProgram plane menuItem = plane
         \<and> finishProgram plane menuItem = plane"
  proof cases
    case info
    then show ?thesis by (simp add: handlers_other)
  next
    case start
    then show ?thesis by (simp add: handlers_other)
  next
    case finish
    then show ?thesis by (simp add: handlers_other)
  next
    case other
    then show ?thesis by (simp add: handlers_other)
  qed
qed

text \<open>
  The theorem at the menu item (program, start), which differs from a known one in the
  case of its letters only: nothing changes.
\<close>

theorem unrecognized_noop_witness:
  "[''program'', ''start''] \<noteq> [''Info'', ''About'']
   \<and> [''program'', ''start''] \<noteq> [''Program'', ''Start'']
   \<and> [''program'', ''start''] \<noteq> [''Program'', ''Finish'']
   \<and> [''program'', ''start''] \<noteq> [''File'', ''Save'']
   \<and> showInfo menuOnly [''program'', ''start''] = menuOnly
   \<and> startProgram idlePlane [''program'', ''start''] = idlePlane
   \<and> finishProgram idlePlane [''program'', ''start''] = idlePlane
   \<and> saveFile (Some ''/tmp/out.txt'') ''out.txt'' [''program'', ''start''] oldDisk = oldDisk"
  using unrecognized_noop [of "[''program'', ''start'']" menuOnly idlePlane
      "Some ''/tmp/out.txt''" "''out.txt''" oldDisk]
  by simp

text \<open>
  C9. When the vector of labels does not have exactly two elements, each of the four
  handlers returns what it was given, also when the vector starts with the labels of a
  known menu item.
\<close>

theorem wrong_length_noop:
  assumes "length menuItem \<noteq> 2"
  shows "showInfo gui menuItem = gui
         \<and> startProgram plane menuItem = plane
         \<and> finishProgram plane menuItem = plane
         \<and> saveFile choice filename menuItem w = w"
proof -
  from assms have "menuItem \<noteq> [a, b]" for a b
    by auto
  then show ?thesis by (simp add: handlers_other)
qed

text \<open>The theorem at the three labels Program, Start, extra.\<close>

theorem wrong_length_noop_witness:
  "length [''Program'', ''Start'', ''extra''] \<noteq> 2
   \<and> showInfo menuOnly [''Program'', ''Start'', ''extra''] = menuOnly
   \<and> startProgram idlePlane [''Program'', ''Start'', ''extra''] = idlePlane
   \<and> finishProgram idlePlane [''Program'', ''Start'', ''extra''] = idlePlane
   \<and> saveFile (Some ''/tmp/out.txt'') ''out.txt'' [''Program'', ''Start'', ''extra''] oldDisk
       = oldDisk"
  using wrong_length_noop [of "[''Program'', ''Start'', ''extra'']" menuOnly idlePlane
      "Some ''/tmp/out.txt''" "''out.txt''" oldDisk]
  by simp

subsection \<open>File\<close>

text \<open>
  C2. What \<^verbatim>\<open>saveFile\<close> does on (File, Save) when the dialog is cancelled and returns the
  null pointer: it shows the dialog and then asks to open a file, with the null pointer
  as the path. No content of the file system changes, but the open is attempted.
\<close>

theorem saveFile_cancelled:
  "trace (saveFile None filename [''File'', ''Save''] w) =
     trace w @ [SaveFileDialog dialogTitle filename 0 None filterDescription, OpenForWrite None]
   \<and> files (saveFile None filename [''File'', ''Save''] w) = files w"
  by (simp add: saveFile_def stream_ops)

text \<open>
  C6, as amended. When the dialog is confirmed with a path \<open>F\<close> that the file system
  opens for writing and at which it takes the five bytes written, \<^verbatim>\<open>saveFile\<close> leaves
  at \<open>F\<close> a file holding exactly the line TEST, whatever was there before.
\<close>

theorem saveFile_confirmed:
  assumes "F \<noteq> []" and "F \<notin> unwritable w" and "hasRoom w F (length ''TEST\<newline>'')"
  shows "files (saveFile (Some F) filename [''File'', ''Save''] w) F = Some ''TEST\<newline>''"
  using assms
  by (simp add: saveFile_def stream_ops hasRoom_def Let_def split: option.splits)

text \<open>The theorem at a path that holds a file already: the old text is replaced.\<close>

theorem saveFile_confirmed_witness:
  "''/tmp/out.txt'' \<noteq> [] \<and> ''/tmp/out.txt'' \<notin> unwritable oldDisk
   \<and> hasRoom oldDisk ''/tmp/out.txt'' (length ''TEST\<newline>'')
   \<and> files oldDisk ''/tmp/out.txt'' = Some ''old text''
   \<and> files (saveFile (Some ''/tmp/out.txt'') ''out.txt'' [''File'', ''Save''] oldDisk)
        ''/tmp/out.txt'' = Some ''TEST\<newline>''"
proof -
  have a: "''/tmp/out.txt'' \<noteq> []" by simp
  have b: "''/tmp/out.txt'' \<notin> unwritable oldDisk" by (simp add: oldDisk_def)
  have c: "hasRoom oldDisk ''/tmp/out.txt'' (length ''TEST\<newline>'')"
    by (simp add: hasRoom_def oldDisk_def)
  show ?thesis
    using a b c saveFile_confirmed [OF a b c, of "''out.txt''"] by (simp add: oldDisk_def)
qed

text \<open>
  C6, as stated, fails in two ways. Where the path cannot be opened for writing, the
  stream fails, the line is dropped, and no file with the line exists at the path
  afterwards. Where the file is opened but the write is refused, the file was emptied
  by the open and stays empty: the old text is gone and the line is not there.
\<close>

theorem saveFile_unwritable_counterexample:
  "files (saveFile (Some ''/locked/out.txt'') ''out.txt'' [''File'', ''Save''] lockedDisk)
     ''/locked/out.txt'' \<noteq> Some ''TEST\<newline>''
   \<and> files (saveFile (Some ''/tmp/out.txt'') ''out.txt'' [''File'', ''Save''] fullDisk)
       ''/tmp/out.txt'' = Some []"
  by (simp add: saveFile_def stream_ops lockedDisk_def fullDisk_def)

end
